theory Spec2Isabelle
  imports Complex_Main
begin

section \<open>The mock Jetson node of \<open>ros2_scripts/mock_jetson_node.py\<close>\<close>

text \<open>
  The node owns two attributes, \<open>count\<close> and \<open>shadow_on\<close>, and two callbacks:
  \<open>publish_telemetry\<close>, fired by a 20 Hz timer, and \<open>toggle_callback\<close>, fired by
  every message on \<open>nav/cmd/toggle_shadow\<close>. \<open>rclpy.spin\<close> runs the callbacks one
  after the other in a single thread, so a run is a sequence of callback invocations.

  Conventions of the embedding:
  \<^item> Python's \<open>int\<close> is \<^typ>\<open>int\<close>; Python's \<open>float\<close> is idealised as \<^typ>\<open>real\<close>, a
    decimal literal standing for the rational it denotes and \<open>math.sin\<close> for \<^const>\<open>sin\<close>.
    Rounding of IEEE doubles is not part of the model.
  \<^item> Every call that is visible outside the node (a \<open>publish\<close> on one of the three
    publishers, a call of the logger) is an element of the list of effects that a
    callback returns, in the order of the calls.
  \<^item> A \<open>publish\<close> call may raise. Which calls raise is a parameter of the timer
    callback; an exception is a value of the outcome, and the statements after the
    raising call are not executed, as in Python.
\<close>

subsection \<open>Messages\<close>

text \<open>
  \<open>geometry_msgs.msg.Twist\<close> has two \<open>Vector3\<close> fields, \<open>linear\<close> and \<open>angular\<close>, each
  with the components \<open>x\<close>, \<open>y\<close>, \<open>z\<close>.
\<close>

record vector3 =
  vec_x :: real
  vec_y :: real
  vec_z :: real

record twist =
  twist_linear :: vector3
  twist_angular :: vector3

text \<open>
  Modelled from the spec: the message class \<open>Vector3\<close> is imported from \<open>geometry_msgs\<close>
  and not defined in this repository. Its constructor, called without arguments, leaves
  every component at zero (``other components fixed at zero'').
\<close>

definition Vector3_init :: vector3 where
  "Vector3_init = \<lparr>vec_x = 0, vec_y = 0, vec_z = 0\<rparr>"

text \<open>
  Modelled from the spec: the message class \<open>Twist\<close> is imported from \<open>geometry_msgs\<close>
  and not defined in this repository. \<open>Twist()\<close> holds two freshly constructed vectors.
\<close>

definition Twist_init :: twist where
  "Twist_init = \<lparr>twist_linear = Vector3_init, twist_angular = Vector3_init\<rparr>"

text \<open>
  One constructor for each publisher of the node, carrying the payload of the message
  handed to it (\<open>Float32(data=...)\<close> and \<open>Bool(data=...)\<close> wrap a single value), and one
  for a call of \<open>get_logger().info\<close>.
\<close>

datatype effect =
    Pub_vel twist
  | Pub_margin real
  | Pub_shadow bool
  | Log_info string

subsection \<open>Node state and callback results\<close>

record node =
  count :: int
  shadow_on :: bool

datatype pyval = PyNone | PyBool bool

datatype exc = Publish_raised effect

text \<open>
  What a callback leaves behind: the node after it, the effects in call order, and either
  the exception that left it or the value it returned.
\<close>

record result =
  node_after :: node
  effects :: "effect list"
  outcome :: "exc + pyval"

text \<open>\<open>str(b)\<close> as the f-string of \<open>toggle_callback\<close> formats it.\<close>

definition str_bool :: "bool \<Rightarrow> string" where
  "str_bool b = (if b then ''True'' else ''False'')"

subsection \<open>The constructor\<close>

text \<open>
  \<open>__init__\<close> registers three publishers, the subscription and the timer, sets
  \<open>count = 0\<close> and \<open>shadow_on = False\<close>, and logs one line.
\<close>

definition MockJetsonNode_init :: result where
  "MockJetsonNode_init =
     \<lparr>node_after = \<lparr>count = 0, shadow_on = False\<rparr>,
      effects = [Log_info ''Mock Jetson Node Started (Send data to Unity at 127.0.0.1:10000)''],
      outcome = Inr PyNone\<rparr>"

subsection \<open>The callbacks\<close>

text \<open>
  \<open>toggle_callback(self, msg)\<close>: the payload \<open>msg\<close> is not read. The function has no
  \<open>return\<close> statement, so its value is \<open>None\<close>.
\<close>

definition toggle_callback :: "bool \<Rightarrow> node \<Rightarrow> result" where
  "toggle_callback msg s =
     (let s' = s\<lparr>shadow_on := \<not> shadow_on s\<rparr>
      in \<lparr>node_after = s',
          effects = [Log_info (''Toggling Shadow Mode via Unity: '' @ str_bool (shadow_on s'))],
          outcome = Inr PyNone\<rparr>)"

text \<open>
  \<open>publish_telemetry(self)\<close>, statement by statement. \<open>raises m\<close> tells whether the
  \<open>publish\<close> call that is handed \<open>m\<close> raises in this firing. The function has no
  exception handler: a raising call ends it, with the effects so far and the node as it
  is then (the increment of \<open>count\<close> is the last statement).
\<close>

definition publish_telemetry :: "(effect \<Rightarrow> bool) \<Rightarrow> node \<Rightarrow> result" where
  "publish_telemetry raises s =
     (let t = real_of_int (count s) * 0.1;
          vel_msg = Twist_init;
          vel_msg = vel_msg\<lparr>twist_linear :=
                      (twist_linear vel_msg)\<lparr>vec_x := 1.0 * (0.5 + 0.5 * sin t)\<rparr>\<rparr>
      in if raises (Pub_vel vel_msg)
         then \<lparr>node_after = s, effects = [], outcome = Inl (Publish_raised (Pub_vel vel_msg))\<rparr>
         else
           let margin = 2.0;
               margin = (if shadow_on s then 0.2 else margin)
           in if raises (Pub_margin margin)
              then \<lparr>node_after = s, effects = [Pub_vel vel_msg],
                    outcome = Inl (Publish_raised (Pub_margin margin))\<rparr>
              else if raises (Pub_shadow (shadow_on s))
              then \<lparr>node_after = s, effects = [Pub_vel vel_msg, Pub_margin margin],
                    outcome = Inl (Publish_raised (Pub_shadow (shadow_on s)))\<rparr>
              else \<lparr>node_after = s\<lparr>count := count s + 1\<rparr>,
                    effects = [Pub_vel vel_msg, Pub_margin margin, Pub_shadow (shadow_on s)],
                    outcome = Inr PyNone\<rparr>)"

subsection \<open>The executor\<close>

text \<open>
  What \<open>rclpy.spin\<close> finds ready: the timer (with the behaviour of the bus during that
  firing) or a message on the toggle topic (with its payload).
\<close>

datatype event = Timer_fired "effect \<Rightarrow> bool" | Toggle_msg bool

fun dispatch :: "event \<Rightarrow> node \<Rightarrow> result" where
  "dispatch (Timer_fired raises) s = publish_telemetry raises s"
| "dispatch (Toggle_msg msg) s = toggle_callback msg s"

text \<open>
  \<open>rclpy.spin(node)\<close> on a finite sequence of ready events. The executor re-raises an
  exception that leaves a callback, so the first one ends the loop; the events after it
  are not served.
\<close>

fun spin :: "event list \<Rightarrow> node \<Rightarrow> result" where
  "spin [] s = \<lparr>node_after = s, effects = [], outcome = Inr PyNone\<rparr>"
| "spin (e # es) s =
     (let r = dispatch e s
      in case outcome r of
           Inl ex \<Rightarrow> r
         | Inr v \<Rightarrow> (let r' = spin es (node_after r)
                     in r'\<lparr>effects := effects r @ effects r'\<rparr>))"

text \<open>The script body: construct the node, then spin it.\<close>

definition main :: "event list \<Rightarrow> result" where
  "main es =
     (let r0 = MockJetsonNode_init;
          r = spin es (node_after r0)
      in r\<lparr>effects := effects r0 @ effects r\<rparr>)"

subsection \<open>Reading a trace\<close>

text \<open>The payloads published on each of the three topics, in order.\<close>

fun velocities :: "effect list \<Rightarrow> twist list" where
  "velocities [] = []"
| "velocities (Pub_vel v # tr) = v # velocities tr"
| "velocities (_ # tr) = velocities tr"

fun margins :: "effect list \<Rightarrow> real list" where
  "margins [] = []"
| "margins (Pub_margin m # tr) = m # margins tr"
| "margins (_ # tr) = margins tr"

fun shadows :: "effect list \<Rightarrow> bool list" where
  "shadows [] = []"
| "shadows (Pub_shadow b # tr) = b # shadows tr"
| "shadows (_ # tr) = shadows tr"

text \<open>A bus on which no \<open>publish\<close> call raises.\<close>

definition quiet :: "effect \<Rightarrow> bool" where
  "quiet m = False"

text \<open>How many times the timer fires in a sequence of events.\<close>

fun timer_firings :: "event list \<Rightarrow> nat" where
  "timer_firings [] = 0"
| "timer_firings (Timer_fired raises # es) = Suc (timer_firings es)"
| "timer_firings (Toggle_msg msg # es) = timer_firings es"

text \<open>A bus on which every \<open>publish\<close> call raises.\<close>

definition broken :: "effect \<Rightarrow> bool" where
  "broken m = True"

text \<open>A bus on which the \<open>publish\<close> calls on \<open>nav/margin\<close> raise and the others return.\<close>

fun margin_down :: "effect \<Rightarrow> bool" where
  "margin_down (Pub_margin m) = True"
| "margin_down _ = False"

subsection \<open>Names for the two computed payloads\<close>

text \<open>
  The \<open>Twist\<close> that \<open>publish_telemetry\<close> builds when \<open>count\<close> is \<open>c\<close>, and the margin it
  picks when \<open>shadow_on\<close> is \<open>b\<close>. Both are abbreviations for the proofs; lemma
  \<open>publish_telemetry_unfold\<close> ties them to the callback.
\<close>

definition vel_msg_at :: "int \<Rightarrow> twist" where
  "vel_msg_at c =
     \<lparr>twist_linear = \<lparr>vec_x = 1.0 * (0.5 + 0.5 * sin (real_of_int c * 0.1)), vec_y = 0, vec_z = 0\<rparr>,
      twist_angular = \<lparr>vec_x = 0, vec_y = 0, vec_z = 0\<rparr>\<rparr>"

definition margin_of :: "bool \<Rightarrow> real" where
  "margin_of b = (if b then 0.2 else 2.0)"

section \<open>Basic facts\<close>

subsection \<open>One firing of the timer\<close>

lemma publish_telemetry_unfold:
  "publish_telemetry raises s =
     (if raises (Pub_vel (vel_msg_at (count s)))
      then \<lparr>node_after = s, effects = [],
            outcome = Inl (Publish_raised (Pub_vel (vel_msg_at (count s))))\<rparr>
      else if raises (Pub_margin (margin_of (shadow_on s)))
      then \<lparr>node_after = s, effects = [Pub_vel (vel_msg_at (count s))],
            outcome = Inl (Publish_raised (Pub_margin (margin_of (shadow_on s))))\<rparr>
      else if raises (Pub_shadow (shadow_on s))
      then \<lparr>node_after = s,
            effects = [Pub_vel (vel_msg_at (count s)), Pub_margin (margin_of (shadow_on s))],
            outcome = Inl (Publish_raised (Pub_shadow (shadow_on s)))\<rparr>
      else \<lparr>node_after = s\<lparr>count := count s + 1\<rparr>,
            effects = [Pub_vel (vel_msg_at (count s)), Pub_margin (margin_of (shadow_on s)),
                       Pub_shadow (shadow_on s)],
            outcome = Inr PyNone\<rparr>)"
  by (simp add: publish_telemetry_def vel_msg_at_def margin_of_def Twist_init_def
      Vector3_init_def Let_def)

lemma publish_telemetry_quiet:
  "publish_telemetry quiet s =
     \<lparr>node_after = s\<lparr>count := count s + 1\<rparr>,
      effects = [Pub_vel (vel_msg_at (count s)), Pub_margin (margin_of (shadow_on s)),
                 Pub_shadow (shadow_on s)],
      outcome = Inr PyNone\<rparr>"
  by (simp add: publish_telemetry_unfold quiet_def)

lemma publish_telemetry_effect_cases:
  "x \<in> set (effects (publish_telemetry raises s)) \<Longrightarrow>
     x = Pub_vel (vel_msg_at (count s)) \<or> x = Pub_margin (margin_of (shadow_on s)) \<or>
     x = Pub_shadow (shadow_on s)"
  by (auto simp add: publish_telemetry_unfold split: if_splits)

lemma dispatch_effect_cases:
  "x \<in> set (effects (dispatch e s)) \<Longrightarrow>
     x = Pub_vel (vel_msg_at (count s)) \<or> x = Pub_margin (margin_of (shadow_on s)) \<or>
     x = Pub_shadow (shadow_on s) \<or>
     x = Log_info (''Toggling Shadow Mode via Unity: '' @ str_bool (\<not> shadow_on s))"
  by (cases e) (auto simp add: publish_telemetry_unfold toggle_callback_def Let_def split: if_splits)

text \<open>The three ways a callback can end, with what each does to the counter.\<close>

lemma dispatch_cases:
  obtains (raised) ex where "outcome (dispatch e s) = Inl ex" "node_after (dispatch e s) = s"
      "velocities (effects (dispatch e s)) = [] \<or>
       velocities (effects (dispatch e s)) = [vel_msg_at (count s)]"
  | (toggled) "outcome (dispatch e s) = Inr PyNone" "count (node_after (dispatch e s)) = count s"
      "velocities (effects (dispatch e s)) = []" "\<exists>msg. e = Toggle_msg msg"
  | (fired) "outcome (dispatch e s) = Inr PyNone"
      "count (node_after (dispatch e s)) = count s + 1"
      "velocities (effects (dispatch e s)) = [vel_msg_at (count s)]"
      "\<exists>raises. e = Timer_fired raises"
proof (cases e)
  case (Toggle_msg msg)
  then show ?thesis using toggled by (simp add: toggle_callback_def Let_def)
next
  case (Timer_fired raises)
  show ?thesis
  proof (cases "outcome (dispatch e s)")
    case (Inl ex)
    with Timer_fired show ?thesis
      using raised[of ex] by (simp add: publish_telemetry_unfold split: if_splits)
  next
    case (Inr v)
    with Timer_fired show ?thesis
      using fired by (simp add: publish_telemetry_unfold split: if_splits)
  qed
qed

subsection \<open>Traces\<close>

lemma velocities_set: "v \<in> set (velocities tr) \<longleftrightarrow> Pub_vel v \<in> set tr"
  by (induction tr rule: velocities.induct) auto

lemma margins_set: "m \<in> set (margins tr) \<longleftrightarrow> Pub_margin m \<in> set tr"
  by (induction tr rule: margins.induct) auto

lemma shadows_set: "b \<in> set (shadows tr) \<longleftrightarrow> Pub_shadow b \<in> set tr"
  by (induction tr rule: shadows.induct) auto

lemma velocities_append: "velocities (xs @ ys) = velocities xs @ velocities ys"
  by (induction xs rule: velocities.induct) auto

subsection \<open>The executor loop\<close>

lemma spin_step_raised:
  "outcome (dispatch e s) = Inl ex \<Longrightarrow> spin (e # es) s = dispatch e s"
  by (simp add: Let_def)

lemma spin_step_returned:
  "outcome (dispatch e s) = Inr v \<Longrightarrow>
     effects (spin (e # es) s) =
       effects (dispatch e s) @ effects (spin es (node_after (dispatch e s)))
   \<and> node_after (spin (e # es) s) = node_after (spin es (node_after (dispatch e s)))
   \<and> outcome (spin (e # es) s) = outcome (spin es (node_after (dispatch e s)))"
  by (simp add: Let_def)

lemma spin_single: "effects (spin [e] s) = effects (dispatch e s)"
  by (cases "outcome (dispatch e s)") (simp_all add: Let_def)

declare spin.simps(2) [simp del]

lemma spin_effect_origin:
  "x \<in> set (effects (spin es s)) \<Longrightarrow> \<exists>e s'. x \<in> set (effects (dispatch e s'))"
proof (induction es arbitrary: s)
  case Nil
  then show ?case by simp
next
  case (Cons e es)
  show ?case
  proof (cases "outcome (dispatch e s)")
    case (Inl ex)
    with Cons.prems have "x \<in> set (effects (dispatch e s))"
      by (simp add: spin_step_raised)
    then show ?thesis by blast
  next
    case (Inr v)
    with Cons.prems have
      "x \<in> set (effects (dispatch e s)) \<or>
       x \<in> set (effects (spin es (node_after (dispatch e s))))"
      by (simp add: spin_step_returned)
    then show ?thesis using Cons.IH by blast
  qed
qed

lemma main_spin:
  "node_after (main es) = node_after (spin es \<lparr>count = 0, shadow_on = False\<rparr>)"
  "outcome (main es) = outcome (spin es \<lparr>count = 0, shadow_on = False\<rparr>)"
  "effects (main es) =
     Log_info ''Mock Jetson Node Started (Send data to Unity at 127.0.0.1:10000)''
       # effects (spin es \<lparr>count = 0, shadow_on = False\<rparr>)"
  by (simp_all add: main_def MockJetsonNode_init_def Let_def)

lemma main_pub_origin:
  assumes "x \<in> set (effects (main es))"
  shows "(\<exists>l. x = Log_info l) \<or> (\<exists>c. x = Pub_vel (vel_msg_at c)) \<or>
         (\<exists>b. x = Pub_margin (margin_of b)) \<or> (\<exists>b. x = Pub_shadow b)"
proof (cases "x \<in> set (effects (spin es \<lparr>count = 0, shadow_on = False\<rparr>))")
  case True
  from spin_effect_origin[OF this] obtain e s' where "x \<in> set (effects (dispatch e s'))"
    by blast
  from dispatch_effect_cases[OF this] show ?thesis by blast
next
  case False
  with assms show ?thesis by (simp add: main_spin)
qed

text \<open>
  The velocity messages of a run are those of consecutive counter values, starting at
  the counter the run starts with.
\<close>

lemma spin_velocities:
  "velocities (effects (spin es s)) =
     map (\<lambda>i. vel_msg_at (count s + int i)) [0..<length (velocities (effects (spin es s)))]"
proof (induction es arbitrary: s)
  case Nil
  show ?case by simp
next
  case (Cons e es)
  let ?s' = "node_after (dispatch e s)"
  define vs where "vs = velocities (effects (spin es ?s'))"
  have IH: "vs = map (\<lambda>i. vel_msg_at (count ?s' + int i)) [0..<length vs]"
    unfolding vs_def by (rule Cons.IH)
  show ?case
  proof (cases e s rule: dispatch_cases)
    case (raised ex)
    then show ?thesis by (auto simp add: spin_step_raised)
  next
    case toggled
    then have "velocities (effects (spin (e # es) s)) = vs"
      by (simp add: spin_step_returned velocities_append vs_def)
    moreover have "vs = map (\<lambda>i. vel_msg_at (count s + int i)) [0..<length vs]"
      using IH toggled(2) by simp
    ultimately show ?thesis by simp
  next
    case fired
    then have eq: "velocities (effects (spin (e # es) s)) = vel_msg_at (count s) # vs"
      by (simp add: spin_step_returned velocities_append vs_def)
    have shift: "count ?s' + int i = count s + int (Suc i)" for i
      using fired(2) by simp
    have "vs = map (\<lambda>i. vel_msg_at (count s + int (Suc i))) [0..<length vs]"
      using IH unfolding shift .
    then have "vel_msg_at (count s) # vs =
        map (\<lambda>i. vel_msg_at (count s + int i)) [0..<Suc (length vs)]"
      by (simp only: map_upt_Suc) simp
    then show ?thesis using eq by simp
  qed
qed

text \<open>A run that has not raised has completed every firing it was given.\<close>

lemma spin_returned_count:
  "outcome (spin es s) = Inr v \<Longrightarrow>
     count (node_after (spin es s)) = count s + int (timer_firings es) \<and>
     length (velocities (effects (spin es s))) = timer_firings es"
proof (induction es arbitrary: s)
  case Nil
  show ?case by simp
next
  case (Cons e es)
  show ?case
  proof (cases e s rule: dispatch_cases)
    case (raised ex)
    with Cons.prems show ?thesis by (simp add: spin_step_raised)
  next
    case toggled
    with Cons.prems have "outcome (spin es (node_after (dispatch e s))) = Inr v"
      by (simp add: spin_step_returned)
    from Cons.IH[OF this] toggled show ?thesis
      by (auto simp add: spin_step_returned velocities_append)
  next
    case fired
    with Cons.prems have "outcome (spin es (node_after (dispatch e s))) = Inr v"
      by (simp add: spin_step_returned)
    from Cons.IH[OF this] fired show ?thesis
      by (auto simp add: spin_step_returned velocities_append)
  qed
qed

lemma spin_count_mono: "count s \<le> count (node_after (spin es s))"
proof (induction es arbitrary: s)
  case Nil
  show ?case by simp
next
  case (Cons e es)
  show ?case
  proof (cases e s rule: dispatch_cases)
    case (raised ex)
    then show ?thesis by (simp add: spin_step_raised)
  next
    case toggled
    then show ?thesis using Cons.IH[of "node_after (dispatch e s)"]
      by (simp add: spin_step_returned)
  next
    case fired
    then show ?thesis using Cons.IH[of "node_after (dispatch e s)"]
      by (simp add: spin_step_returned)
  qed
qed

lemma spin_append_returned:
  "outcome (spin es s) = Inr v \<Longrightarrow>
     effects (spin (es @ es') s) =
       effects (spin es s) @ effects (spin es' (node_after (spin es s)))
   \<and> node_after (spin (es @ es') s) = node_after (spin es' (node_after (spin es s)))
   \<and> outcome (spin (es @ es') s) = outcome (spin es' (node_after (spin es s)))"
proof (induction es arbitrary: s)
  case Nil
  show ?case by simp
next
  case (Cons e es)
  show ?case
  proof (cases "outcome (dispatch e s)")
    case (Inl ex)
    with Cons.prems show ?thesis by (simp add: spin_step_raised)
  next
    case (Inr w)
    with Cons.prems have "outcome (spin es (node_after (dispatch e s))) = Inr v"
      by (simp add: spin_step_returned)
    from Cons.IH[OF this] Inr show ?thesis
      by (simp add: spin_step_returned)
  qed
qed

lemma spin_append_raised:
  "outcome (spin es s) = Inl ex \<Longrightarrow> spin (es @ es') s = spin es s"
proof (induction es arbitrary: s)
  case Nil
  then show ?case by simp
next
  case (Cons e es)
  show ?case
  proof (cases "outcome (dispatch e s)")
    case (Inl ex')
    then show ?thesis by (simp add: spin_step_raised)
  next
    case (Inr w)
    with Cons.prems have "outcome (spin es (node_after (dispatch e s))) = Inl ex"
      by (simp add: spin_step_returned)
    from Cons.IH[OF this] Inr show ?thesis
      by (simp add: spin.simps(2) Let_def)
  qed
qed

subsection \<open>Arithmetic of the waveform\<close>

lemma vel_x_bounds:
  "0 \<le> vec_x (twist_linear (vel_msg_at c)) \<and> vec_x (twist_linear (vel_msg_at c)) \<le> 1"
proof -
  have "vec_x (twist_linear (vel_msg_at c)) = 1 / 2 + sin (real_of_int c / 10) / 2"
    by (simp add: vel_msg_at_def)
  then show ?thesis
    using sin_ge_minus_one[of "real_of_int c / 10"] sin_le_one[of "real_of_int c / 10"]
    by linarith
qed

text \<open>The Maclaurin polynomial of degree two of the sine is \<open>x\<close>; the remainder at \<open>1/10\<close>.\<close>

lemma sin_tenth_bound: "\<bar>sin (1 / 10 :: real) - 1 / 10\<bar> \<le> 1 / 6000"
proof -
  have "\<bar>sin (1 / 10 :: real) - (\<Sum>m<3. sin_coeff m * (1 / 10) ^ m)\<bar>
          \<le> inverse (fact 3) * \<bar>1 / 10\<bar> ^ 3"
    by (rule Maclaurin_sin_bound)
  moreover have "(\<Sum>m<3. sin_coeff m * (1 / 10 :: real) ^ m) = 1 / 10"
    by (simp add: lessThan_Suc numeral_3_eq_3 sin_coeff_Suc cos_coeff_Suc)
  moreover have "inverse (fact 3) * \<bar>1 / 10 :: real\<bar> ^ 3 = 1 / 6000"
    by (simp add: fact_numeral power3_eq_cube)
  ultimately show ?thesis by simp
qed

lemma sin_tenth_between:
  "599 / 6000 \<le> sin (1 / 10 :: real) \<and> sin (1 / 10 :: real) \<le> 601 / 6000"
  using sin_tenth_bound by linarith

section \<open>The claims\<close>

subsection \<open>C1: the velocity waveform\<close>

text \<open>
  C1. For every tick \<open>n \<ge> 0\<close> the published linear velocity is
  \<open>1.0 * (0.5 + 0.5 * sin (0.1 * n))\<close>: in every run of the script, whatever the toggle
  messages and the bus do, the \<open>n\<close>-th message published on \<open>nav/cmd_vel\<close> (counting from
  0) carries that value in \<open>linear.x\<close>; and in a run that has not raised there is one such
  message for each firing of the timer.
\<close>

theorem published_velocity_formula:
  "map (\<lambda>v. vec_x (twist_linear v)) (velocities (effects (main es))) =
     map (\<lambda>n. 1.0 * (0.5 + 0.5 * sin (0.1 * real n)))
       [0..<length (velocities (effects (main es)))]
   \<and> (outcome (main es) = Inr PyNone \<longrightarrow>
        length (velocities (effects (main es))) = timer_firings es)"
proof
  let ?s0 = "\<lparr>count = 0, shadow_on = False\<rparr>"
  let ?vs = "velocities (effects (spin es ?s0))"
  have "?vs = map (\<lambda>i. vel_msg_at (count ?s0 + int i)) [0..<length ?vs]"
    by (rule spin_velocities)
  then have "map (\<lambda>v. vec_x (twist_linear v)) ?vs =
      map (\<lambda>v. vec_x (twist_linear v)) (map (\<lambda>i. vel_msg_at (int i)) [0..<length ?vs])"
    by simp
  also have "\<dots> = map (\<lambda>n. 1.0 * (0.5 + 0.5 * sin (0.1 * real n))) [0..<length ?vs]"
    by (simp add: vel_msg_at_def mult.commute)
  finally show "map (\<lambda>v. vec_x (twist_linear v)) (velocities (effects (main es))) =
     map (\<lambda>n. 1.0 * (0.5 + 0.5 * sin (0.1 * real n)))
       [0..<length (velocities (effects (main es)))]"
    by (simp add: main_spin)
  show "outcome (main es) = Inr PyNone \<longrightarrow>
      length (velocities (effects (main es))) = timer_firings es"
    using spin_returned_count[of es ?s0 PyNone] by (simp add: main_spin)
qed

theorem published_velocity_formula_witness:
  "outcome (main [Timer_fired quiet, Toggle_msg True, Timer_fired quiet]) = Inr PyNone
   \<and> length (velocities (effects (main [Timer_fired quiet, Toggle_msg True, Timer_fired quiet])))
       = timer_firings [Timer_fired quiet, Toggle_msg True, Timer_fired quiet]"
proof -
  have h: "outcome (main [Timer_fired quiet, Toggle_msg True, Timer_fired quiet]) = Inr PyNone"
    by (simp add: main_def MockJetsonNode_init_def Let_def spin.simps(2)
        publish_telemetry_quiet toggle_callback_def)
  from published_velocity_formula[of "[Timer_fired quiet, Toggle_msg True, Timer_fired quiet]"] h
  show ?thesis by blast
qed

subsection \<open>C2: bounds of the velocity\<close>

text \<open>
  C2. The linear velocity lies in the closed interval from 0 to 1.0 at every tick, and
  is 0.5 at tick 0: every velocity message of every run, and of a firing from any node
  state, has its \<open>linear.x\<close> in that interval, and the firing at \<open>count = 0\<close> publishes
  0.5.
\<close>

theorem linear_velocity_bounds:
  "(\<forall>v \<in> set (velocities (effects (main es))).
      0 \<le> vec_x (twist_linear v) \<and> vec_x (twist_linear v) \<le> 1.0)
   \<and> (\<forall>v \<in> set (velocities (effects (publish_telemetry raises s))).
      0 \<le> vec_x (twist_linear v) \<and> vec_x (twist_linear v) \<le> 1.0)
   \<and> map (\<lambda>v. vec_x (twist_linear v))
        (velocities (effects (publish_telemetry quiet \<lparr>count = 0, shadow_on = b\<rparr>))) = [0.5]"
proof (intro conjI ballI)
  fix v assume "v \<in> set (velocities (effects (main es)))"
  then have "Pub_vel v \<in> set (effects (main es))" by (simp add: velocities_set)
  from main_pub_origin[OF this] obtain c where "v = vel_msg_at c" by auto
  then show "0 \<le> vec_x (twist_linear v)" "vec_x (twist_linear v) \<le> 1.0"
    using vel_x_bounds[of c] by simp_all
next
  fix v assume "v \<in> set (velocities (effects (publish_telemetry raises s)))"
  then have "Pub_vel v \<in> set (effects (publish_telemetry raises s))"
    by (simp add: velocities_set)
  from publish_telemetry_effect_cases[OF this] have "v = vel_msg_at (count s)" by simp
  then show "0 \<le> vec_x (twist_linear v)" "vec_x (twist_linear v) \<le> 1.0"
    using vel_x_bounds[of "count s"] by simp_all
next
  show "map (\<lambda>v. vec_x (twist_linear v))
        (velocities (effects (publish_telemetry quiet \<lparr>count = 0, shadow_on = b\<rparr>))) = [0.5]"
    by (simp add: publish_telemetry_quiet vel_msg_at_def)
qed

theorem linear_velocity_bounds_witness:
  "velocities (effects (main [Timer_fired quiet, Timer_fired quiet])) \<noteq> []
   \<and> 0 \<le> vec_x (twist_linear (last (velocities (effects (main [Timer_fired quiet, Timer_fired quiet])))))
   \<and> vec_x (twist_linear (last (velocities (effects (main [Timer_fired quiet, Timer_fired quiet]))))) \<le> 1.0
   \<and> velocities (effects (publish_telemetry quiet \<lparr>count = 3, shadow_on = True\<rparr>)) \<noteq> []
   \<and> 0 \<le> vec_x (twist_linear (last (velocities (effects (publish_telemetry quiet \<lparr>count = 3, shadow_on = True\<rparr>)))))
   \<and> vec_x (twist_linear (last (velocities (effects (publish_telemetry quiet \<lparr>count = 3, shadow_on = True\<rparr>))))) \<le> 1.0"
proof -
  let ?run = "velocities (effects (main [Timer_fired quiet, Timer_fired quiet]))"
  let ?one = "velocities (effects (publish_telemetry quiet \<lparr>count = 3, shadow_on = True\<rparr>))"
  have r: "?run \<noteq> []"
    by (simp add: main_def MockJetsonNode_init_def Let_def spin.simps(2) publish_telemetry_quiet)
  have p: "?one \<noteq> []"
    by (simp add: publish_telemetry_quiet)
  from r have "last ?run \<in> set ?run" by (rule last_in_set)
  moreover from p have "last ?one \<in> set ?one" by (rule last_in_set)
  ultimately show ?thesis
    using r p linear_velocity_bounds[of "[Timer_fired quiet, Timer_fired quiet]" quiet
        "\<lparr>count = 3, shadow_on = True\<rparr>"]
    by blast
qed

subsection \<open>C3: the safety margin\<close>

text \<open>
  C3. At every tick the published safety margin is exactly 2.0 when the mode flag is
  false and exactly 0.2 when it is true, and no other margin is ever published: a firing
  on a quiet bus publishes that one margin, a margin published by any firing is that
  value, and the margins of every run are among 2.0 and 0.2.
\<close>

theorem safety_margin_two_values:
  "margins (effects (publish_telemetry quiet s)) = [if shadow_on s then 0.2 else 2.0]
   \<and> (\<forall>m \<in> set (margins (effects (publish_telemetry raises s))).
        m = (if shadow_on s then 0.2 else 2.0))
   \<and> set (margins (effects (main es))) \<subseteq> {2.0, 0.2}"
proof (intro conjI ballI subsetI)
  show "margins (effects (publish_telemetry quiet s)) = [if shadow_on s then 0.2 else 2.0]"
    by (simp add: publish_telemetry_quiet margin_of_def)
next
  fix m assume "m \<in> set (margins (effects (publish_telemetry raises s)))"
  then have "Pub_margin m \<in> set (effects (publish_telemetry raises s))"
    by (simp add: margins_set)
  from publish_telemetry_effect_cases[OF this]
  show "m = (if shadow_on s then 0.2 else 2.0)" by (simp add: margin_of_def)
next
  fix m assume "m \<in> set (margins (effects (main es)))"
  then have "Pub_margin m \<in> set (effects (main es))" by (simp add: margins_set)
  from main_pub_origin[OF this] obtain b where "m = margin_of b" by auto
  then show "m \<in> {2.0, 0.2}" by (simp add: margin_of_def)
qed

theorem safety_margin_two_values_witness:
  "margins (effects (publish_telemetry quiet \<lparr>count = 7, shadow_on = True\<rparr>)) \<noteq> []
   \<and> last (margins (effects (publish_telemetry quiet \<lparr>count = 7, shadow_on = True\<rparr>))) = 0.2
   \<and> margins (effects (main [Toggle_msg False, Timer_fired quiet])) \<noteq> []
   \<and> last (margins (effects (main [Toggle_msg False, Timer_fired quiet]))) \<in> {2.0, 0.2}"
proof -
  let ?one = "margins (effects (publish_telemetry quiet \<lparr>count = 7, shadow_on = True\<rparr>))"
  let ?run = "margins (effects (main [Toggle_msg False, Timer_fired quiet]))"
  have p: "?one \<noteq> []"
    by (simp add: publish_telemetry_quiet)
  have r: "?run \<noteq> []"
    by (simp add: main_def MockJetsonNode_init_def Let_def spin.simps(2) publish_telemetry_quiet
        toggle_callback_def)
  note inst = safety_margin_two_values[of "\<lparr>count = 7, shadow_on = True\<rparr>" quiet
      "[Toggle_msg False, Timer_fired quiet]"]
  from inst have all: "\<forall>m \<in> set ?one. m = (if True then 0.2 else 2.0)" by simp
  from inst have sub: "set ?run \<subseteq> {2.0, 0.2}" by blast
  from p have "last ?one \<in> set ?one" by (rule last_in_set)
  with all have one: "last ?one = 0.2" by simp
  from r have "last ?run \<in> set ?run" by (rule last_in_set)
  with sub have run: "last ?run \<in> {2.0, 0.2}" by blast
  from p one r run show ?thesis by blast
qed

subsection \<open>C4: the shadow status\<close>

text \<open>
  C4. At every tick the published shadow status is the mode flag as it is at that tick,
  and only the toggle handler changes the flag: a firing publishes \<open>shadow_on\<close> and
  leaves it as it was, and a callback changes the flag exactly when it is the toggle
  handler.
\<close>

theorem shadow_active_is_mode:
  "shadows (effects (publish_telemetry quiet s)) = [shadow_on s]
   \<and> (\<forall>b \<in> set (shadows (effects (publish_telemetry raises s))). b = shadow_on s)
   \<and> shadow_on (node_after (publish_telemetry raises s)) = shadow_on s
   \<and> ((shadow_on (node_after (dispatch e s)) \<noteq> shadow_on s) = (\<exists>msg. e = Toggle_msg msg))"
proof (intro conjI ballI)
  show "shadows (effects (publish_telemetry quiet s)) = [shadow_on s]"
    by (simp add: publish_telemetry_quiet)
next
  fix b assume "b \<in> set (shadows (effects (publish_telemetry raises s)))"
  then have "Pub_shadow b \<in> set (effects (publish_telemetry raises s))"
    by (simp add: shadows_set)
  from publish_telemetry_effect_cases[OF this] show "b = shadow_on s" by simp
next
  show keep: "shadow_on (node_after (publish_telemetry raises s)) = shadow_on s" for raises
    by (simp add: publish_telemetry_unfold)
  show "(shadow_on (node_after (dispatch e s)) \<noteq> shadow_on s) = (\<exists>msg. e = Toggle_msg msg)"
    by (cases e) (simp_all add: keep toggle_callback_def Let_def)
qed

theorem shadow_active_is_mode_witness:
  "shadows (effects (publish_telemetry quiet \<lparr>count = 2, shadow_on = True\<rparr>)) \<noteq> []
   \<and> last (shadows (effects (publish_telemetry quiet \<lparr>count = 2, shadow_on = True\<rparr>))) = True"
proof -
  let ?one = "shadows (effects (publish_telemetry quiet \<lparr>count = 2, shadow_on = True\<rparr>))"
  have p: "?one \<noteq> []"
    by (simp add: publish_telemetry_quiet)
  then have "last ?one \<in> set ?one" by (rule last_in_set)
  then show ?thesis
    using p shadow_active_is_mode[of "\<lparr>count = 2, shadow_on = True\<rparr>" quiet
        "Toggle_msg True"]
    by auto
qed

subsection \<open>C5: the end-to-end scenario\<close>

text \<open>
  C5, as amended. From the initial state, a firing, one toggle message and a second
  firing give the samples (velocity 0.5, margin 2.0, shadow false) and (velocity
  \<open>0.5 + 0.5 * sin 0.1\<close>, margin 0.2, shadow true); the second velocity is 0.550 to three
  decimal places, not 0.599.
\<close>

theorem end_to_end_scenario:
  "effects (main [Timer_fired quiet, Toggle_msg msg, Timer_fired quiet]) =
     [Log_info ''Mock Jetson Node Started (Send data to Unity at 127.0.0.1:10000)'',
      Pub_vel \<lparr>twist_linear = \<lparr>vec_x = 0.5, vec_y = 0, vec_z = 0\<rparr>,
               twist_angular = \<lparr>vec_x = 0, vec_y = 0, vec_z = 0\<rparr>\<rparr>,
      Pub_margin 2.0,
      Pub_shadow False,
      Log_info ''Toggling Shadow Mode via Unity: True'',
      Pub_vel \<lparr>twist_linear = \<lparr>vec_x = 0.5 + 0.5 * sin 0.1, vec_y = 0, vec_z = 0\<rparr>,
               twist_angular = \<lparr>vec_x = 0, vec_y = 0, vec_z = 0\<rparr>\<rparr>,
      Pub_margin 0.2,
      Pub_shadow True]
   \<and> \<bar>(0.5 + 0.5 * sin 0.1) - (0.550::real)\<bar> < 0.0005"
proof
  show "effects (main [Timer_fired quiet, Toggle_msg msg, Timer_fired quiet]) =
     [Log_info ''Mock Jetson Node Started (Send data to Unity at 127.0.0.1:10000)'',
      Pub_vel \<lparr>twist_linear = \<lparr>vec_x = 0.5, vec_y = 0, vec_z = 0\<rparr>,
               twist_angular = \<lparr>vec_x = 0, vec_y = 0, vec_z = 0\<rparr>\<rparr>,
      Pub_margin 2.0,
      Pub_shadow False,
      Log_info ''Toggling Shadow Mode via Unity: True'',
      Pub_vel \<lparr>twist_linear = \<lparr>vec_x = 0.5 + 0.5 * sin 0.1, vec_y = 0, vec_z = 0\<rparr>,
               twist_angular = \<lparr>vec_x = 0, vec_y = 0, vec_z = 0\<rparr>\<rparr>,
      Pub_margin 0.2,
      Pub_shadow True]"
    by (simp add: main_def MockJetsonNode_init_def Let_def spin.simps(2) publish_telemetry_quiet
        toggle_callback_def str_bool_def vel_msg_at_def margin_of_def)
  show "\<bar>(0.5 + 0.5 * sin 0.1) - (0.550::real)\<bar> < 0.0005"
    using sin_tenth_between
    by (simp only: power2_eq_square power3_eq_cube power4_eq_xxxx) linarith
qed

text \<open>
  The claim as stated fails: the velocity of the second sample is further than 0.04
  from 0.599.
\<close>

theorem tick1_velocity_counterexample:
  "\<not> \<bar>vec_x (twist_linear (velocities (effects
          (main [Timer_fired quiet, Toggle_msg True, Timer_fired quiet])) ! 1)) - 0.599\<bar> < 0.04"
proof -
  have "vec_x (twist_linear (velocities (effects
          (main [Timer_fired quiet, Toggle_msg True, Timer_fired quiet])) ! 1))
        = 0.5 + 0.5 * sin 0.1"
    by (simp add: main_def MockJetsonNode_init_def Let_def spin.simps(2) publish_telemetry_quiet
        toggle_callback_def vel_msg_at_def)
  then show ?thesis using sin_tenth_between by (simp add: abs_less_iff)
qed

subsection \<open>C6: toggling twice\<close>

text \<open>
  C6. The toggle is an involution on the mode flag: two toggle messages restore the
  node; so from a node whose flag is false, two toggle messages followed by a firing
  publish margin 2.0 and shadow false.
\<close>

theorem toggle_involution:
  "node_after (toggle_callback msg2 (node_after (toggle_callback msg1 s))) = s
   \<and> (\<not> shadow_on s \<longrightarrow>
        margins (effects (spin [Toggle_msg msg1, Toggle_msg msg2, Timer_fired quiet] s)) = [2.0] \<and>
        shadows (effects (spin [Toggle_msg msg1, Toggle_msg msg2, Timer_fired quiet] s)) = [False])"
  by (simp add: toggle_callback_def Let_def spin.simps(2) publish_telemetry_quiet margin_of_def)

theorem toggle_involution_witness:
  "\<not> shadow_on \<lparr>count = 1, shadow_on = False\<rparr>
   \<and> margins (effects (spin [Toggle_msg True, Toggle_msg True, Timer_fired quiet]
        \<lparr>count = 1, shadow_on = False\<rparr>)) = [2.0]
   \<and> shadows (effects (spin [Toggle_msg True, Toggle_msg True, Timer_fired quiet]
        \<lparr>count = 1, shadow_on = False\<rparr>)) = [False]"
proof -
  have h: "\<not> shadow_on \<lparr>count = 1, shadow_on = False\<rparr>" by simp
  from toggle_involution[of True True "\<lparr>count = 1, shadow_on = False\<rparr>"] h
  show ?thesis by blast
qed

subsection \<open>C7: the tick counter and the order within a firing\<close>

text \<open>
  C7, as amended. A firing publishes, in the order velocity, margin, shadow and all
  computed from the counter and the flag as they were when it started, the messages up
  to the first publish call that raises. It returns exactly when all three have been
  published, and only then is the counter incremented, by exactly one; a firing in which
  a publish call raises leaves the counter as it was. No callback and no run decreases
  or resets the counter. In a run that has not raised the counter equals the number of
  firings so far, so the firing that follows is computed from that number.
\<close>

theorem tick_counter_and_order:
  "effects (publish_telemetry raises s) =
     takeWhile (\<lambda>m. \<not> raises m)
       [Pub_vel \<lparr>twist_linear =
                   \<lparr>vec_x = 1.0 * (0.5 + 0.5 * sin (real_of_int (count s) * 0.1)),
                    vec_y = 0, vec_z = 0\<rparr>,
                 twist_angular = \<lparr>vec_x = 0, vec_y = 0, vec_z = 0\<rparr>\<rparr>,
        Pub_margin (if shadow_on s then 0.2 else 2.0),
        Pub_shadow (shadow_on s)]
   \<and> node_after (publish_telemetry raises s) =
       (if length (effects (publish_telemetry raises s)) = 3
        then s\<lparr>count := count s + 1\<rparr> else s)
   \<and> ((outcome (publish_telemetry raises s) = Inr PyNone) =
        (length (effects (publish_telemetry raises s)) = 3))
   \<and> count s \<le> count (node_after (dispatch e s))
   \<and> count (node_after (dispatch e s)) \<le> count s + 1
   \<and> count s \<le> count (node_after (spin es s))
   \<and> (outcome (main es) = Inr PyNone \<longrightarrow>
        count (node_after (main es)) = int (timer_firings es) \<and>
        effects (main (es @ [Timer_fired raises])) =
          effects (main es) @ effects (publish_telemetry raises (node_after (main es))))"
proof (intro conjI impI)
  show "effects (publish_telemetry raises s) =
     takeWhile (\<lambda>m. \<not> raises m)
       [Pub_vel \<lparr>twist_linear =
                   \<lparr>vec_x = 1.0 * (0.5 + 0.5 * sin (real_of_int (count s) * 0.1)),
                    vec_y = 0, vec_z = 0\<rparr>,
                 twist_angular = \<lparr>vec_x = 0, vec_y = 0, vec_z = 0\<rparr>\<rparr>,
        Pub_margin (if shadow_on s then 0.2 else 2.0),
        Pub_shadow (shadow_on s)]"
    by (simp add: publish_telemetry_unfold vel_msg_at_def margin_of_def)
  show "node_after (publish_telemetry raises s) =
       (if length (effects (publish_telemetry raises s)) = 3
        then s\<lparr>count := count s + 1\<rparr> else s)"
    by (simp add: publish_telemetry_unfold)
  show "(outcome (publish_telemetry raises s) = Inr PyNone) =
        (length (effects (publish_telemetry raises s)) = 3)"
    by (simp add: publish_telemetry_unfold)
next
  show "count s \<le> count (node_after (dispatch e s))"
    by (cases e s rule: dispatch_cases) simp_all
  show "count (node_after (dispatch e s)) \<le> count s + 1"
    by (cases e s rule: dispatch_cases) simp_all
  show "count s \<le> count (node_after (spin es s))"
    by (rule spin_count_mono)
next
  assume ret: "outcome (main es) = Inr PyNone"
  let ?s0 = "\<lparr>count = 0, shadow_on = False\<rparr>"
  from ret have r: "outcome (spin es ?s0) = Inr PyNone" by (simp add: main_spin)
  show "count (node_after (main es)) = int (timer_firings es)"
    using spin_returned_count[OF r] by (simp add: main_spin)
  show "effects (main (es @ [Timer_fired raises])) =
          effects (main es) @ effects (publish_telemetry raises (node_after (main es)))"
    using spin_append_returned[OF r, of "[Timer_fired raises]"]
    by (simp add: main_spin spin_single)
qed

theorem tick_counter_and_order_witness:
  "outcome (main [Timer_fired quiet, Toggle_msg True, Timer_fired quiet]) = Inr PyNone
   \<and> count (node_after (main [Timer_fired quiet, Toggle_msg True, Timer_fired quiet])) = 2
   \<and> effects (main ([Timer_fired quiet, Toggle_msg True, Timer_fired quiet]
        @ [Timer_fired margin_down])) =
       effects (main [Timer_fired quiet, Toggle_msg True, Timer_fired quiet])
       @ effects (publish_telemetry margin_down
           (node_after (main [Timer_fired quiet, Toggle_msg True, Timer_fired quiet])))
   \<and> length (effects (publish_telemetry margin_down \<lparr>count = 2, shadow_on = True\<rparr>)) = 1
   \<and> node_after (publish_telemetry margin_down \<lparr>count = 2, shadow_on = True\<rparr>)
       = \<lparr>count = 2, shadow_on = True\<rparr>"
proof -
  have h: "outcome (main [Timer_fired quiet, Toggle_msg True, Timer_fired quiet]) = Inr PyNone"
    by (simp add: main_def MockJetsonNode_init_def Let_def spin.simps(2)
        publish_telemetry_quiet toggle_callback_def)
  note inst = tick_counter_and_order[of margin_down "\<lparr>count = 2, shadow_on = True\<rparr>"
      "Timer_fired quiet" "[Timer_fired quiet, Toggle_msg True, Timer_fired quiet]"]
  from inst have eff: "effects (publish_telemetry margin_down \<lparr>count = 2, shadow_on = True\<rparr>) =
     takeWhile (\<lambda>m. \<not> margin_down m)
       [Pub_vel \<lparr>twist_linear =
                   \<lparr>vec_x = 1.0 * (0.5 + 0.5 *
                      sin (real_of_int (count \<lparr>count = 2, shadow_on = True\<rparr>) * 0.1)),
                    vec_y = 0, vec_z = 0\<rparr>,
                 twist_angular = \<lparr>vec_x = 0, vec_y = 0, vec_z = 0\<rparr>\<rparr>,
        Pub_margin (if shadow_on \<lparr>count = 2, shadow_on = True\<rparr> then 0.2 else 2.0),
        Pub_shadow (shadow_on \<lparr>count = 2, shadow_on = True\<rparr>)]"
    by (rule conjunct1)
  then have len:
    "length (effects (publish_telemetry margin_down \<lparr>count = 2, shadow_on = True\<rparr>)) = 1"
    by simp
  from inst have "node_after (publish_telemetry margin_down \<lparr>count = 2, shadow_on = True\<rparr>) =
       (if length (effects (publish_telemetry margin_down \<lparr>count = 2, shadow_on = True\<rparr>)) = 3
        then \<lparr>count = 2, shadow_on = True\<rparr>\<lparr>count := count \<lparr>count = 2, shadow_on = True\<rparr> + 1\<rparr>
        else \<lparr>count = 2, shadow_on = True\<rparr>)"
    by blast
  with len have same: "node_after (publish_telemetry margin_down \<lparr>count = 2, shadow_on = True\<rparr>)
       = \<lparr>count = 2, shadow_on = True\<rparr>"
    by simp
  from inst h have c: "count (node_after (main [Timer_fired quiet, Toggle_msg True, Timer_fired quiet])) = 2"
    by simp
  from inst h have app: "effects (main ([Timer_fired quiet, Toggle_msg True, Timer_fired quiet]
        @ [Timer_fired margin_down])) =
       effects (main [Timer_fired quiet, Toggle_msg True, Timer_fired quiet])
       @ effects (publish_telemetry margin_down
           (node_after (main [Timer_fired quiet, Toggle_msg True, Timer_fired quiet])))"
    by blast
  from h c app len same show ?thesis by blast
qed

text \<open>
  The claim as stated fails: in a firing at tick 5 whose margin publish raises, the
  velocity computed from tick 5 has been published and the counter is still 5.
\<close>

theorem tick_increment_counterexample:
  "count (node_after (publish_telemetry margin_down \<lparr>count = 5, shadow_on = False\<rparr>)) \<noteq> 5 + 1
   \<and> length (velocities (effects
        (publish_telemetry margin_down \<lparr>count = 5, shadow_on = False\<rparr>))) = 1"
  by (simp add: publish_telemetry_unfold)

subsection \<open>C8: what the toggle handler returns\<close>

text \<open>
  C8, as amended. The toggle handler flips the mode flag, leaves the counter alone, and
  logs the new value of the flag; it returns \<open>None\<close>, not the new value.
\<close>

theorem toggle_flips_and_logs:
  "node_after (toggle_callback msg s) = s\<lparr>shadow_on := \<not> shadow_on s\<rparr>
   \<and> effects (toggle_callback msg s) =
       [Log_info (''Toggling Shadow Mode via Unity: '' @
                  (if shadow_on s then ''False'' else ''True''))]
   \<and> outcome (toggle_callback msg s) = Inr PyNone"
  by (simp add: toggle_callback_def Let_def str_bool_def)

text \<open>
  The claim as stated fails: what the handler returns is not the flag after the flip.
\<close>

theorem toggle_return_counterexample:
  "outcome (toggle_callback True \<lparr>count = 0, shadow_on = False\<rparr>) \<noteq>
     Inr (PyBool (shadow_on (node_after (toggle_callback True \<lparr>count = 0, shadow_on = False\<rparr>))))"
  by (simp add: toggle_callback_def Let_def)

subsection \<open>C9: a publish call that raises\<close>

text \<open>
  C9, as amended. A firing raises exactly when one of the publish calls it makes raises;
  the exception is neither caught nor logged. The firing then ends at the raising call:
  what it has published is a proper prefix of the three messages (nothing is published a
  second time), and the node, the counter included, is as before. The exception leaves
  \<open>rclpy.spin\<close> as well, so no later event is served.
\<close>

theorem publish_failure_propagates:
  "((\<exists>ex. outcome (publish_telemetry raises s) = Inl ex) =
      (\<exists>m \<in> set (effects (publish_telemetry quiet s)). raises m))
   \<and> (outcome (publish_telemetry raises s) = Inl ex \<longrightarrow>
        node_after (publish_telemetry raises s) = s \<and>
        length (effects (publish_telemetry raises s)) < 3 \<and>
        effects (publish_telemetry raises s) =
          take (length (effects (publish_telemetry raises s)))
            (effects (publish_telemetry quiet s)))
   \<and> (outcome (dispatch e s) = Inl ex \<longrightarrow> spin (e # es) s = dispatch e s)
   \<and> (outcome (main es) = Inl ex \<longrightarrow> main (es @ es') = main es)"
proof (intro conjI impI)
  show "(\<exists>ex. outcome (publish_telemetry raises s) = Inl ex) =
      (\<exists>m \<in> set (effects (publish_telemetry quiet s)). raises m)"
    by (simp add: publish_telemetry_quiet) (simp add: publish_telemetry_unfold)
next
  assume "outcome (publish_telemetry raises s) = Inl ex"
  then show "node_after (publish_telemetry raises s) = s"
    "length (effects (publish_telemetry raises s)) < 3"
    "effects (publish_telemetry raises s) =
       take (length (effects (publish_telemetry raises s)))
         (effects (publish_telemetry quiet s))"
    by (simp_all add: publish_telemetry_quiet)
       (simp_all add: publish_telemetry_unfold split: if_splits)
next
  assume "outcome (dispatch e s) = Inl ex"
  then show "spin (e # es) s = dispatch e s" by (rule spin_step_raised)
next
  assume "outcome (main es) = Inl ex"
  then have "outcome (spin es \<lparr>count = 0, shadow_on = False\<rparr>) = Inl ex"
    by (simp add: main_spin)
  from spin_append_raised[OF this, of es'] show "main (es @ es') = main es"
    by (simp add: main_def Let_def MockJetsonNode_init_def)
qed

theorem publish_failure_propagates_witness:
  "outcome (publish_telemetry broken \<lparr>count = 0, shadow_on = False\<rparr>)
     = Inl (Publish_raised (Pub_vel
         \<lparr>twist_linear = \<lparr>vec_x = 0.5, vec_y = 0, vec_z = 0\<rparr>,
          twist_angular = \<lparr>vec_x = 0, vec_y = 0, vec_z = 0\<rparr>\<rparr>))
   \<and> node_after (publish_telemetry broken \<lparr>count = 0, shadow_on = False\<rparr>)
       = \<lparr>count = 0, shadow_on = False\<rparr>
   \<and> outcome (main [Timer_fired broken])
       = Inl (Publish_raised (Pub_vel
         \<lparr>twist_linear = \<lparr>vec_x = 0.5, vec_y = 0, vec_z = 0\<rparr>,
          twist_angular = \<lparr>vec_x = 0, vec_y = 0, vec_z = 0\<rparr>\<rparr>))
   \<and> main ([Timer_fired broken] @ [Timer_fired quiet]) = main [Timer_fired broken]"
proof -
  let ?s0 = "\<lparr>count = 0, shadow_on = False\<rparr>"
  let ?ex = "Publish_raised (Pub_vel
         \<lparr>twist_linear = \<lparr>vec_x = 0.5, vec_y = 0, vec_z = 0\<rparr>,
          twist_angular = \<lparr>vec_x = 0, vec_y = 0, vec_z = 0\<rparr>\<rparr>)"
  have h1: "outcome (publish_telemetry broken ?s0) = Inl ?ex"
    by (simp add: publish_telemetry_unfold broken_def vel_msg_at_def)
  have h2: "outcome (main [Timer_fired broken]) = Inl ?ex"
    by (simp add: main_def MockJetsonNode_init_def Let_def spin.simps(2)
        publish_telemetry_unfold broken_def vel_msg_at_def)
  note inst = publish_failure_propagates[of broken ?s0 ?ex "Timer_fired broken"
      "[Timer_fired broken]" "[Timer_fired quiet]"]
  from inst h1 have c1: "node_after (publish_telemetry broken ?s0) = ?s0" by blast
  from inst h2 have c2:
    "main ([Timer_fired broken] @ [Timer_fired quiet]) = main [Timer_fired broken]" by blast
  from h1 c1 h2 c2 show ?thesis by blast
qed

text \<open>
  The claim as stated fails: when the publish calls of the first firing raise, the run
  ends with that exception, and the second firing, on a quiet bus, publishes nothing.
\<close>

theorem publish_failure_counterexample:
  "outcome (main [Timer_fired broken, Timer_fired quiet]) \<noteq> Inr PyNone
   \<and> effects (main [Timer_fired broken, Timer_fired quiet]) =
       [Log_info ''Mock Jetson Node Started (Send data to Unity at 127.0.0.1:10000)'']"
  by (simp add: main_def MockJetsonNode_init_def Let_def spin.simps(2)
      publish_telemetry_unfold broken_def)

subsection \<open>C10: the other components of the velocity message\<close>

text \<open>
  C10. In every message published on \<open>nav/cmd_vel\<close> only \<open>linear.x\<close> is populated:
  \<open>linear.y\<close>, \<open>linear.z\<close> and the three angular components are zero in every velocity
  message of every run, because the message of a firing is the freshly constructed
  \<open>Twist\<close> with \<open>linear.x\<close> assigned and nothing else.
\<close>

theorem velocity_only_linear_x:
  "(\<forall>v \<in> set (velocities (effects (main es))).
      vec_y (twist_linear v) = 0 \<and> vec_z (twist_linear v) = 0 \<and>
      twist_angular v = \<lparr>vec_x = 0, vec_y = 0, vec_z = 0\<rparr>)
   \<and> (\<forall>v \<in> set (velocities (effects (publish_telemetry raises s))).
      v = Twist_init\<lparr>twist_linear :=
            (twist_linear Twist_init)\<lparr>vec_x := vec_x (twist_linear v)\<rparr>\<rparr>)"
proof (intro conjI ballI)
  fix v assume "v \<in> set (velocities (effects (main es)))"
  then have "Pub_vel v \<in> set (effects (main es))" by (simp add: velocities_set)
  from main_pub_origin[OF this] obtain c where "v = vel_msg_at c" by auto
  then show "vec_y (twist_linear v) = 0" "vec_z (twist_linear v) = 0"
    "twist_angular v = \<lparr>vec_x = 0, vec_y = 0, vec_z = 0\<rparr>"
    by (simp_all add: vel_msg_at_def)
next
  fix v assume "v \<in> set (velocities (effects (publish_telemetry raises s)))"
  then have "Pub_vel v \<in> set (effects (publish_telemetry raises s))"
    by (simp add: velocities_set)
  from publish_telemetry_effect_cases[OF this] have "v = vel_msg_at (count s)" by simp
  then show "v = Twist_init\<lparr>twist_linear :=
      (twist_linear Twist_init)\<lparr>vec_x := vec_x (twist_linear v)\<rparr>\<rparr>"
    by (simp add: vel_msg_at_def Twist_init_def Vector3_init_def)
qed

theorem velocity_only_linear_x_witness:
  "velocities (effects (main [Timer_fired quiet, Timer_fired quiet])) \<noteq> []
   \<and> vec_y (twist_linear (last (velocities (effects (main [Timer_fired quiet, Timer_fired quiet]))))) = 0
   \<and> vec_z (twist_linear (last (velocities (effects (main [Timer_fired quiet, Timer_fired quiet]))))) = 0
   \<and> twist_angular (last (velocities (effects (main [Timer_fired quiet, Timer_fired quiet]))))
       = \<lparr>vec_x = 0, vec_y = 0, vec_z = 0\<rparr>
   \<and> velocities (effects (publish_telemetry quiet \<lparr>count = 9, shadow_on = False\<rparr>)) \<noteq> []
   \<and> vec_y (twist_linear (last (velocities
         (effects (publish_telemetry quiet \<lparr>count = 9, shadow_on = False\<rparr>))))) = 0"
proof -
  let ?run = "velocities (effects (main [Timer_fired quiet, Timer_fired quiet]))"
  let ?one = "velocities (effects (publish_telemetry quiet \<lparr>count = 9, shadow_on = False\<rparr>))"
  have r: "?run \<noteq> []"
    by (simp add: main_def MockJetsonNode_init_def Let_def spin.simps(2) publish_telemetry_quiet)
  have p: "?one \<noteq> []"
    by (simp add: publish_telemetry_quiet)
  note inst = velocity_only_linear_x[of "[Timer_fired quiet, Timer_fired quiet]" quiet
      "\<lparr>count = 9, shadow_on = False\<rparr>"]
  from r have "last ?run \<in> set ?run" by (rule last_in_set)
  with inst have run: "vec_y (twist_linear (last ?run)) = 0 \<and> vec_z (twist_linear (last ?run)) = 0
      \<and> twist_angular (last ?run) = \<lparr>vec_x = 0, vec_y = 0, vec_z = 0\<rparr>"
    by blast
  from p have "last ?one \<in> set ?one" by (rule last_in_set)
  with inst have "last ?one = Twist_init\<lparr>twist_linear :=
      (twist_linear Twist_init)\<lparr>vec_x := vec_x (twist_linear (last ?one))\<rparr>\<rparr>"
    by blast
  then have "vec_y (twist_linear (last ?one)) =
      vec_y (twist_linear (Twist_init\<lparr>twist_linear :=
        (twist_linear Twist_init)\<lparr>vec_x := vec_x (twist_linear (last ?one))\<rparr>\<rparr>))"
    by simp
  then have one: "vec_y (twist_linear (last ?one)) = 0"
    by (simp add: Twist_init_def Vector3_init_def)
  from r run p one show ?thesis by blast
qed

end

